theory Spec2Isabelle
  imports Main
begin

section \<open>The faculty-profile backend (backend/server.js)\<close>

text \<open>
  The server is one file of route handlers over three pieces of state: the \<open>User\<close>
  collection, the \<open>Faculty\<close> collection and the upload directory on disk. Each handler
  is embedded as a function from the state before the request to the response and the
  state after it. What the file gets from the packages it requires (the hasher, the
  identifier cast of the document store, \<open>path.extname\<close>, the place of the script on
  disk) is a field of the record \<open>libs\<close>; what changes from one request to the next
  (the clock, the salt, the identifier generated for a new document) is an argument
  of the handler. A failure of the connection to the store is not modelled.
\<close>

subsection \<open>Values, documents, state\<close>

text \<open>
  A document of the \<open>Faculty\<close> collection maps a field name of the schema to its text;
  a field that is unset (or null) is absent from the map. The \<open>_id\<close> of a document is
  kept beside it, as the key of the collection.
\<close>

type_synonym objectId = string
type_synonym doc = "string \<rightharpoonup> string"

text \<open>An object literal: its keys in order, each with a value that may be undefined.\<close>

type_synonym obj = "(string \<times> string option) list"

text \<open>\<open>userSchema\<close>; the body of a register or login request has the same two keys.\<close>

record user =
  username :: string
  password :: string

record state =
  users :: "user list"
  faculties :: "(objectId \<times> doc) list"
  disk :: "string set"

datatype exn = CastError | DuplicateKey | IllegalArguments

record libs =
  castObjectId :: "string \<Rightarrow> objectId option"
  bcrypt_hash :: "string \<Rightarrow> nat \<Rightarrow> string \<Rightarrow> exn + string"
  bcrypt_compare :: "string \<Rightarrow> string \<Rightarrow> exn + bool"
  path_extname :: "string \<Rightarrow> string"
  omitUndefined :: bool
  dirname :: string

text \<open>
  \<open>castObjectId\<close> is \<open>None\<close> where the store client raises a cast error.
  \<open>bcrypt_hash p rounds salt\<close> is the hash of \<open>p\<close> under the salt drawn for the call.
  \<open>omitUndefined\<close> says what the store client does with a key of an update whose value
  is undefined: it drops the key when the flag is set and writes null otherwise. The
  flag is the option of that name of the store client in its version 5, unset by
  default; from version 6 on the client always drops such a key. The server sets no
  option and names no version, so both behaviours are kept.
\<close>

datatype json =
    Message string
  | Welcome string string
  | Status bool string
  | Updated bool string "(objectId \<times> doc) option"
  | Document "objectId \<times> doc"
  | Documents "(objectId \<times> doc) list"

type_synonym response = "nat \<times> json"

subsection \<open>Strings, paths, the disk\<close>

definition digit :: "nat \<Rightarrow> char" where
  "digit d = ''0123456789'' ! d"

text \<open>The text of a non-negative integer, as \<open>number + string\<close> renders it.\<close>

function decimal :: "nat \<Rightarrow> string" where
  "decimal n = (if n < 10 then [digit n] else decimal (n div 10) @ [digit (n mod 10)])"
  by pat_completeness auto
termination
  by (relation "measure (\<lambda>n. n)") auto

definition truthy :: "string option \<Rightarrow> bool" where
  "truthy v = (case v of None \<Rightarrow> False | Some s \<Rightarrow> s \<noteq> [])"

text \<open>
  \<open>path.join\<close> of two segments. The paths the server joins have no \<open>.\<close> or \<open>..\<close>
  segment and no doubled separator but the one between the two parts, so only that
  one is normalised.
\<close>

definition path_join :: "string \<Rightarrow> string \<Rightarrow> string" where
  "path_join a b = (case b of [] \<Rightarrow> a | c # cs \<Rightarrow> if c = CHR ''/'' then a @ b else a @ ''/'' @ b)"

definition uploadDir :: "libs \<Rightarrow> string" where
  "uploadDir L = path_join (dirname L) ''faculty_uploadss''"

definition existsSync :: "state \<Rightarrow> string \<Rightarrow> bool" where
  "existsSync st p = (p \<in> disk st)"

definition unlinkSync :: "state \<Rightarrow> string \<Rightarrow> state" where
  "unlinkSync st p = st\<lparr>disk := disk st - {p}\<rparr>"

text \<open>\<open>if (photo) { oldPath = path.join(__dirname, photo); if (exists) unlink }\<close>\<close>

definition removePhoto :: "libs \<Rightarrow> state \<Rightarrow> string option \<Rightarrow> state" where
  "removePhoto L st photo =
     (if truthy photo then
        (let oldPath = path_join (dirname L) (the photo)
         in if existsSync st oldPath then unlinkSync st oldPath else st)
      else st)"

subsection \<open>The upload middleware\<close>

record upload =
  originalname :: string

definition multer_filename :: "libs \<Rightarrow> nat \<Rightarrow> upload \<Rightarrow> string" where
  "multer_filename L now file = decimal now @ path_extname L (originalname file)"

text \<open>
  \<open>upload.single("photo")\<close> runs before the handler: a file part is written under the
  upload directory and its generated name is \<open>req.file.filename\<close>.
\<close>

definition upload_single :: "libs \<Rightarrow> nat \<Rightarrow> state \<Rightarrow> upload option \<Rightarrow> string option \<times> state" where
  "upload_single L now st file =
     (case file of
        None \<Rightarrow> (None, st)
      | Some f \<Rightarrow>
          (let fname = multer_filename L now f
           in (Some fname, st\<lparr>disk := insert (path_join (uploadDir L) fname) (disk st)\<rparr>)))"

subsection \<open>The two collections\<close>

definition User_findOne :: "state \<Rightarrow> string \<Rightarrow> user option" where
  "User_findOne st u = find (\<lambda>x. username x = u) (users st)"

definition User_save :: "state \<Rightarrow> user \<Rightarrow> state" where
  "User_save st u = st\<lparr>users := users st @ [u]\<rparr>"

definition facultySchema :: "string list" where
  "facultySchema =
     [''name'', ''designation'', ''department'', ''photo'', ''publications'',
      ''researchProjects'', ''articlesAndJournals'', ''workshops'', ''coursesHandled'',
      ''awardsReceived'']"

text \<open>\<open>new Faculty(o)\<close>: the keys of the schema whose value is defined.\<close>

definition new_Faculty :: "obj \<Rightarrow> doc" where
  "new_Faculty ob =
     foldl (\<lambda>d kv. case kv of (k, v) \<Rightarrow> if k \<in> set facultySchema then d(k := v) else d)
       Map.empty ob"

text \<open>\<open>save()\<close> of a new document: the store refuses a second document with the same \<open>_id\<close>.\<close>

definition Faculty_save :: "state \<Rightarrow> objectId \<Rightarrow> doc \<Rightarrow> exn + state" where
  "Faculty_save st i d =
     (if i \<in> fst ` set (faculties st) then Inl DuplicateKey
      else Inr (st\<lparr>faculties := faculties st @ [(i, d)]\<rparr>))"

text \<open>A projection given as the names of the fields to keep, separated by spaces.\<close>

fun fields :: "string \<Rightarrow> string \<Rightarrow> string list" where
  "fields acc [] = (if acc = [] then [] else [acc])"
| "fields acc (c # cs) =
     (if c = CHR '' '' then (if acc = [] then fields [] cs else acc # fields [] cs)
      else fields (acc @ [c]) cs)"

definition Faculty_find :: "state \<Rightarrow> string \<Rightarrow> (objectId \<times> doc) list" where
  "Faculty_find st projection =
     map (\<lambda>(i, d). (i, d |` set (fields [] projection))) (faculties st)"

fun findId :: "objectId \<Rightarrow> (objectId \<times> doc) list \<Rightarrow> (objectId \<times> doc) option" where
  "findId i [] = None"
| "findId i (x # xs) = (if fst x = i then Some x else findId i xs)"

definition Faculty_findById :: "libs \<Rightarrow> state \<Rightarrow> string \<Rightarrow> exn + (objectId \<times> doc) option" where
  "Faculty_findById L st s =
     (case castObjectId L s of
        None \<Rightarrow> Inl CastError
      | Some i \<Rightarrow> Inr (findId i (faculties st)))"

text \<open>One key of a \<open>$set\<close>, as the store client casts and applies it.\<close>

definition setField :: "libs \<Rightarrow> doc \<Rightarrow> string \<times> string option \<Rightarrow> doc" where
  "setField L d kv =
     (case kv of (k, v) \<Rightarrow>
        if k \<notin> set facultySchema then d
        else (case v of
                Some s \<Rightarrow> d(k \<mapsto> s)
              | None \<Rightarrow> if omitUndefined L then d else d(k := None)))"

definition applyUpdate :: "libs \<Rightarrow> obj \<Rightarrow> doc \<Rightarrow> doc" where
  "applyUpdate L u d = foldl (setField L) d u"

fun replaceFirst :: "objectId \<Rightarrow> doc \<Rightarrow> (objectId \<times> doc) list \<Rightarrow> (objectId \<times> doc) list" where
  "replaceFirst i d [] = []"
| "replaceFirst i d (x # xs) = (if fst x = i then (i, d) # xs else x # replaceFirst i d xs)"

fun removeFirst :: "objectId \<Rightarrow> (objectId \<times> doc) list \<Rightarrow> (objectId \<times> doc) list" where
  "removeFirst i [] = []"
| "removeFirst i (x # xs) = (if fst x = i then xs else x # removeFirst i xs)"

text \<open>\<open>findByIdAndUpdate(id, u, {new: true})\<close>: the document after the update, or null.\<close>

definition Faculty_findByIdAndUpdate ::
  "libs \<Rightarrow> state \<Rightarrow> string \<Rightarrow> obj \<Rightarrow> exn + ((objectId \<times> doc) option \<times> state)" where
  "Faculty_findByIdAndUpdate L st s u =
     (case castObjectId L s of
        None \<Rightarrow> Inl CastError
      | Some i \<Rightarrow>
          (case findId i (faculties st) of
             None \<Rightarrow> Inr (None, st)
           | Some x \<Rightarrow>
               (let d = applyUpdate L u (snd x)
                in Inr (Some (i, d), st\<lparr>faculties := replaceFirst i d (faculties st)\<rparr>))))"

definition Faculty_findByIdAndDelete ::
  "libs \<Rightarrow> state \<Rightarrow> string \<Rightarrow> exn + ((objectId \<times> doc) option \<times> state)" where
  "Faculty_findByIdAndDelete L st s =
     (case castObjectId L s of
        None \<Rightarrow> Inl CastError
      | Some i \<Rightarrow>
          (case findId i (faculties st) of
             None \<Rightarrow> Inr (None, st)
           | Some x \<Rightarrow> Inr (Some x, st\<lparr>faculties := removeFirst i (faculties st)\<rparr>)))"

subsection \<open>User auth\<close>

text \<open>\<open>POST /register\<close>\<close>

definition register :: "libs \<Rightarrow> string \<Rightarrow> state \<Rightarrow> user \<Rightarrow> response \<times> state" where
  "register L salt st body =
     (case User_findOne st (username body) of
        Some existing \<Rightarrow> ((400, Message ''Username already exists''), st)
      | None \<Rightarrow>
          (case bcrypt_hash L (password body) 10 salt of
             Inl err \<Rightarrow> ((500, Message ''Server error''), st)
           | Inr hashedPassword \<Rightarrow>
               ((201, Message ''User registered successfully''),
                User_save st \<lparr>username = username body, password = hashedPassword\<rparr>)))"

text \<open>\<open>POST /login\<close>\<close>

definition login :: "libs \<Rightarrow> state \<Rightarrow> user \<Rightarrow> response \<times> state" where
  "login L st body =
     (case User_findOne st (username body) of
        None \<Rightarrow> ((400, Message ''Invalid username or password''), st)
      | Some u \<Rightarrow>
          (case bcrypt_compare L (password body) (password u) of
             Inl err \<Rightarrow> ((500, Message ''Error logging in''), st)
           | Inr isMatch \<Rightarrow>
               if \<not> isMatch then ((400, Message ''Invalid username or password''), st)
               else ((200, Welcome (''Welcome '' @ username u) (username u)), st)))"

subsection \<open>Faculty API\<close>

text \<open>The nine text fields both \<open>POST\<close> and \<open>PUT\<close> read from \<open>req.body\<close>.\<close>

definition textFields :: "string list" where
  "textFields =
     [''name'', ''designation'', ''department'', ''publications'', ''researchProjects'',
      ''articlesAndJournals'', ''workshops'', ''coursesHandled'', ''awardsReceived'']"

definition photoUrl :: "string \<Rightarrow> string" where
  "photoUrl fname = ''/faculty_uploadss/'' @ fname"

text \<open>\<open>POST /api/faculty\<close>, first the object it hands to \<open>new Faculty\<close>.\<close>

definition newFacultyData :: "doc \<Rightarrow> string option \<Rightarrow> obj" where
  "newFacultyData body reqFile =
     [(''name'', body ''name''),
      (''designation'', body ''designation''),
      (''department'', body ''department''),
      (''photo'', Some (case reqFile of Some fname \<Rightarrow> photoUrl fname | None \<Rightarrow> '''')),
      (''publications'', body ''publications''),
      (''researchProjects'', body ''researchProjects''),
      (''articlesAndJournals'', body ''articlesAndJournals''),
      (''workshops'', body ''workshops''),
      (''coursesHandled'', body ''coursesHandled''),
      (''awardsReceived'', body ''awardsReceived'')]"

definition post_faculty ::
  "libs \<Rightarrow> nat \<Rightarrow> objectId \<Rightarrow> state \<Rightarrow> doc \<Rightarrow> upload option \<Rightarrow> response \<times> state" where
  "post_faculty L now newId st body file =
     (case upload_single L now st file of (reqFile, st1) \<Rightarrow>
        (let newFaculty = new_Faculty (newFacultyData body reqFile)
         in case Faculty_save st1 newId newFaculty of
              Inl err \<Rightarrow> ((500, Status False ''Error saving faculty''), st1)
            | Inr st2 \<Rightarrow> ((200, Status True ''Faculty saved successfully!''), st2)))"

text \<open>\<open>GET /api/faculty\<close>\<close>

definition get_faculties :: "state \<Rightarrow> response \<times> state" where
  "get_faculties st =
     ((200, Documents (Faculty_find st ''name designation department photo'')), st)"

text \<open>\<open>GET /api/faculty/:id\<close>\<close>

definition get_faculty :: "libs \<Rightarrow> state \<Rightarrow> string \<Rightarrow> response \<times> state" where
  "get_faculty L st ident =
     (case Faculty_findById L st ident of
        Inl err \<Rightarrow> ((500, Status False ''Error fetching faculty''), st)
      | Inr None \<Rightarrow> ((404, Status False ''Faculty not found''), st)
      | Inr (Some faculty) \<Rightarrow> ((200, Document faculty), st))"

text \<open>\<open>PUT /api/faculty/:id\<close>, first the object \<open>updatedData\<close> it builds from the body.\<close>

definition updatedData :: "doc \<Rightarrow> obj" where
  "updatedData body =
     [(''name'', body ''name''),
      (''designation'', body ''designation''),
      (''department'', body ''department''),
      (''publications'', body ''publications''),
      (''researchProjects'', body ''researchProjects''),
      (''articlesAndJournals'', body ''articlesAndJournals''),
      (''workshops'', body ''workshops''),
      (''coursesHandled'', body ''coursesHandled''),
      (''awardsReceived'', body ''awardsReceived'')]"

definition put_faculty ::
  "libs \<Rightarrow> nat \<Rightarrow> state \<Rightarrow> string \<Rightarrow> doc \<Rightarrow> upload option \<Rightarrow> response \<times> state" where
  "put_faculty L now st ident body file =
     (case upload_single L now st file of (reqFile, st1) \<Rightarrow>
        (case Faculty_findById L st1 ident of
           Inl err \<Rightarrow> ((500, Status False ''Error updating faculty''), st1)
         | Inr None \<Rightarrow> ((404, Status False ''Faculty not found''), st1)
         | Inr (Some faculty) \<Rightarrow>
             (let (updatedData2, st2) =
                    (case reqFile of
                       None \<Rightarrow> (updatedData body, st1)
                     | Some fname \<Rightarrow>
                         (updatedData body @ [(''photo'', Some (photoUrl fname))],
                          removePhoto L st1 (snd faculty ''photo'')))
              in case Faculty_findByIdAndUpdate L st2 ident updatedData2 of
                   Inl err \<Rightarrow> ((500, Status False ''Error updating faculty''), st2)
                 | Inr (updatedFaculty, st3) \<Rightarrow>
                     ((200, Updated True ''Faculty updated successfully!'' updatedFaculty), st3))))"

text \<open>\<open>DELETE /api/faculty/:id\<close>\<close>

definition delete_faculty :: "libs \<Rightarrow> state \<Rightarrow> string \<Rightarrow> response \<times> state" where
  "delete_faculty L st ident =
     (case Faculty_findByIdAndDelete L st ident of
        Inl err \<Rightarrow> ((500, Status False ''Error deleting faculty''), st)
      | Inr (None, st1) \<Rightarrow> ((404, Status False ''Faculty not found''), st1)
      | Inr (Some deleted, st1) \<Rightarrow>
          ((200, Status True ''Faculty deleted successfully''),
           removePhoto L st1 (snd deleted ''photo'')))"

subsection \<open>A concrete instance\<close>

text \<open>
  One instance of the libraries and one state, on which the theorems below are run: a
  cast that accepts 24 lower-case hexadecimal digits, a hasher that writes the salt, a
  \<open>$\<close> and the password, and an extension that is the text from the last dot on.
\<close>

definition demo_cast :: "string \<Rightarrow> objectId option" where
  "demo_cast s =
     (if length s = 24 \<and> list_all (\<lambda>c. c \<in> set ''0123456789abcdef'') s then Some s else None)"

definition demo_hash :: "string \<Rightarrow> nat \<Rightarrow> string \<Rightarrow> exn + string" where
  "demo_hash p rounds salt = Inr (salt @ ''$'' @ p)"

definition demo_compare :: "string \<Rightarrow> string \<Rightarrow> exn + bool" where
  "demo_compare p h = Inr (dropWhile (\<lambda>c. c \<noteq> CHR ''$'') h = ''$'' @ p)"

definition demo_extname :: "string \<Rightarrow> string" where
  "demo_extname s =
     (if CHR ''.'' \<in> set s then CHR ''.'' # rev (takeWhile (\<lambda>c. c \<noteq> CHR ''.'') (rev s)) else [])"

definition demo_libs :: libs where
  "demo_libs =
     \<lparr>castObjectId = demo_cast, bcrypt_hash = demo_hash, bcrypt_compare = demo_compare,
      path_extname = demo_extname, omitUndefined = False, dirname = ''/app''\<rparr>"

definition ada_id :: objectId where
  "ada_id = ''64b7f0a1c2d3e4f5a6b7c8d9''"

definition bob_id :: objectId where
  "bob_id = ''64b7f0a1c2d3e4f5a6b7c8da''"

definition new_id :: objectId where
  "new_id = ''64b7f0a1c2d3e4f5a6b7c8db''"

definition ada :: doc where
  "ada = [''name'' \<mapsto> ''Ada'', ''designation'' \<mapsto> ''Professor'', ''department'' \<mapsto> ''CS'',
          ''photo'' \<mapsto> ''/faculty_uploadss/1700000000000.png'',
          ''publications'' \<mapsto> ''Notes'', ''workshops'' \<mapsto> ''W1'']"

definition bob :: doc where
  "bob = [''name'' \<mapsto> ''Bob'', ''department'' \<mapsto> ''EE'', ''photo'' \<mapsto> '''']"

definition demo_state :: state where
  "demo_state =
     \<lparr>users = [\<lparr>username = ''alice'', password = ''s1$pw1''\<rparr>],
      faculties = [(ada_id, ada), (bob_id, bob)],
      disk = {''/app/faculty_uploadss/1700000000000.png''}\<rparr>"

text \<open>The same libraries with a store client that drops the undefined keys of an update.\<close>

definition omitting_libs :: libs where
  "omitting_libs = demo_libs\<lparr>omitUndefined := True\<rparr>"

subsection \<open>Reading the state\<close>

text \<open>The value of field \<open>k\<close> in the stored document \<open>i\<close>, if there is one.\<close>

definition storedField :: "state \<Rightarrow> objectId \<Rightarrow> string \<Rightarrow> string option" where
  "storedField st i k = (case findId i (faculties st) of None \<Rightarrow> None | Some x \<Rightarrow> snd x k)"

text \<open>
  The number a string of decimal digits writes: the inverse of the rendering of the
  clock in a file name.
\<close>

definition digitValue :: "char \<Rightarrow> nat" where
  "digitValue c = length (takeWhile (\<lambda>x. x \<noteq> c) ''0123456789'')"

definition numberOf :: "string \<Rightarrow> nat" where
  "numberOf s = foldl (\<lambda>a c. 10 * a + digitValue c) 0 s"

section \<open>Auxiliary facts\<close>

declare decimal.simps [simp del]

lemma digit_in: "k < 10 \<Longrightarrow> digit k \<in> set ''0123456789''"
  unfolding digit_def by (rule nth_mem) simp

lemma decimal_digits: "set (decimal n) \<subseteq> set ''0123456789''"
proof (induction n rule: decimal.induct)
  case (1 n)
  show ?case
  proof (cases "n < 10")
    case True
    then show ?thesis using digit_in [of n] by (subst decimal.simps) simp
  next
    case False
    have "digit (n mod 10) \<in> set ''0123456789''" by (rule digit_in) simp
    with False 1 show ?thesis by (subst decimal.simps) simp
  qed
qed

lemma decimal_nonempty: "decimal n \<noteq> []"
  by (subst decimal.simps) simp

lemma find_append_last: "find P xs = None \<Longrightarrow> find P (xs @ [x]) = (if P x then Some x else None)"
  by (induction xs) (auto split: if_splits)

lemma findId_None: "(findId i xs = None) = (i \<notin> fst ` set xs)"
  by (induction xs) auto

lemma findId_Some: "findId i xs = Some x \<Longrightarrow> fst x = i \<and> x \<in> set xs"
  by (induction xs) (auto split: if_splits)

lemma findId_append_new: "i \<notin> fst ` set xs \<Longrightarrow> findId i (xs @ [(i, d)]) = Some (i, d)"
  by (induction xs) auto

lemma findId_replaceFirst:
  "findId i xs = Some x \<Longrightarrow> findId i (replaceFirst i d xs) = Some (i, d)"
  by (induction xs) (auto split: if_splits)

lemma map_fst_replaceFirst: "map fst (replaceFirst i d xs) = map fst xs"
  by (induction xs) auto

lemma replaceFirst_only:
  "distinct (map fst xs) \<Longrightarrow> (i, e) \<in> set (replaceFirst i d xs) \<Longrightarrow> e = d"
proof (induction xs)
  case Nil
  then show ?case by simp
next
  case (Cons x xs)
  show ?case
  proof (cases "fst x = i")
    case True
    with Cons.prems have "i \<notin> fst ` set xs" by simp
    then have "(i, e) \<notin> set xs" by force
    with True Cons.prems(2) show ?thesis by simp
  next
    case False
    with Cons show ?thesis by auto
  qed
qed

lemma set_removeFirst_subset: "set (removeFirst i xs) \<subseteq> set xs"
  by (induction xs) auto

lemma removeFirst_gone:
  "distinct (map fst xs) \<Longrightarrow> i \<notin> fst ` set (removeFirst i xs)"
proof (induction xs)
  case Nil
  then show ?case by simp
next
  case (Cons x xs)
  then show ?case by (cases "fst x = i") auto
qed

lemma removeFirst_others:
  "j \<noteq> i \<Longrightarrow> findId j (removeFirst i xs) = findId j xs"
  by (induction xs) auto

lemma setField_other: "k \<noteq> fst kv \<Longrightarrow> setField L d kv k = d k"
  by (cases kv) (simp add: setField_def split: option.splits)

lemma setField_key:
  "k \<in> set facultySchema \<Longrightarrow>
   setField L d (k, v) k = (case v of Some s \<Rightarrow> Some s | None \<Rightarrow> if omitUndefined L then d k else None)"
  by (simp add: setField_def split: option.splits)

lemma applyUpdate_other: "k \<notin> fst ` set u \<Longrightarrow> applyUpdate L u d k = d k"
  unfolding applyUpdate_def
  by (induction u arbitrary: d) (simp_all add: setField_other)

lemma applyUpdate_key:
  "distinct (map fst u) \<Longrightarrow> (k, v) \<in> set u \<Longrightarrow> k \<in> set facultySchema \<Longrightarrow>
   applyUpdate L u d k = (case v of Some s \<Rightarrow> Some s | None \<Rightarrow> if omitUndefined L then d k else None)"
proof (induction u arbitrary: d)
  case Nil
  then show ?case by simp
next
  case (Cons x xs)
  show ?case
  proof (cases "x = (k, v)")
    case True
    with Cons.prems(1) have "k \<notin> fst ` set xs" by auto
    then have "applyUpdate L xs (setField L d x) k = setField L d x k"
      by (rule applyUpdate_other)
    with True Cons.prems(3) show ?thesis
      by (simp add: applyUpdate_def setField_key)
  next
    case False
    with Cons.prems(2) have mem: "(k, v) \<in> set xs" by simp
    then have "k \<in> fst ` set xs" by force
    with Cons.prems(1) have ne: "fst x \<noteq> k" by auto
    from Cons.prems(1) have "distinct (map fst xs)" by simp
    from ne have "setField L d x k = d k" by (intro setField_other) simp
    with Cons.IH [OF \<open>distinct (map fst xs)\<close> mem Cons.prems(3), of "setField L d x"]
    show ?thesis by (simp add: applyUpdate_def split: option.splits)
  qed
qed

lemma new_Faculty_fold_other:
  "k \<notin> fst ` set ob \<Longrightarrow>
   foldl (\<lambda>d kv. case kv of (k, v) \<Rightarrow> if k \<in> set facultySchema then d(k := v) else d) d0 ob k = d0 k"
  by (induction ob arbitrary: d0) (auto split: prod.splits)

lemma new_Faculty_fold_key:
  "distinct (map fst ob) \<Longrightarrow> (k, v) \<in> set ob \<Longrightarrow> k \<in> set facultySchema \<Longrightarrow>
   foldl (\<lambda>d kv. case kv of (k, v) \<Rightarrow> if k \<in> set facultySchema then d(k := v) else d) d0 ob k = v"
proof (induction ob arbitrary: d0)
  case Nil
  then show ?case by simp
next
  case (Cons x xs)
  show ?case
  proof (cases "x = (k, v)")
    case True
    with Cons.prems(1) have "k \<notin> fst ` set xs" by auto
    from new_Faculty_fold_other [OF this] True Cons.prems(3) show ?thesis by simp
  next
    case False
    with Cons.prems(2) have mem: "(k, v) \<in> set xs" by simp
    from Cons.prems(1) have "distinct (map fst xs)" by simp
    from Cons.IH [OF this mem Cons.prems(3)] show ?thesis by simp
  qed
qed

lemma new_Faculty_key:
  "distinct (map fst ob) \<Longrightarrow> (k, v) \<in> set ob \<Longrightarrow> k \<in> set facultySchema \<Longrightarrow> new_Faculty ob k = v"
  unfolding new_Faculty_def by (rule new_Faculty_fold_key)

lemma new_Faculty_other: "k \<notin> fst ` set ob \<Longrightarrow> new_Faculty ob k = None"
  unfolding new_Faculty_def by (simp add: new_Faculty_fold_other)

lemma textFields_schema: "k \<in> set textFields \<Longrightarrow> k \<in> set facultySchema"
  by (auto simp: textFields_def facultySchema_def)

lemma photo_schema: "''photo'' \<in> set facultySchema"
  by (simp add: facultySchema_def)

lemma updatedData_mem: "k \<in> set textFields \<Longrightarrow> (k, body k) \<in> set (updatedData body)"
  by (auto simp: textFields_def updatedData_def)

lemma updatedData_keys: "map fst (updatedData body) = textFields"
  by (simp add: textFields_def updatedData_def)

lemma textFields_distinct: "distinct textFields"
  by (simp add: textFields_def)

lemma photo_not_text: "''photo'' \<notin> set textFields"
  by (simp add: textFields_def)

lemma get_faculty_found:
  "castObjectId L ident = Some i \<Longrightarrow> findId i (faculties st) = Some x
   \<Longrightarrow> get_faculty L st ident = ((200, Document x), st)"
  by (simp add: get_faculty_def Faculty_findById_def)

lemma get_faculty_missing:
  "castObjectId L ident = Some i \<Longrightarrow> findId i (faculties st) = None
   \<Longrightarrow> get_faculty L st ident = ((404, Status False ''Faculty not found''), st)"
  by (simp add: get_faculty_def Faculty_findById_def)

lemma removePhoto_disk:
  "disk (removePhoto L st p)
     = disk st - (if truthy p then {path_join (dirname L) (the p)} else {})"
  by (auto simp: removePhoto_def existsSync_def unlinkSync_def Let_def)

lemma removePhoto_faculties: "faculties (removePhoto L st p) = faculties st"
  by (simp add: removePhoto_def existsSync_def unlinkSync_def Let_def)

lemma removePhoto_users: "users (removePhoto L st p) = users st"
  by (simp add: removePhoto_def existsSync_def unlinkSync_def Let_def)

text \<open>What a \<open>PUT\<close> on a stored document does, without and with a file.\<close>

lemma put_faculty_plain:
  assumes "castObjectId L ident = Some i" and "findId i (faculties st) = Some x"
  shows "put_faculty L now st ident body None
           = ((200, Updated True ''Faculty updated successfully!''
                      (Some (i, applyUpdate L (updatedData body) (snd x)))),
              st\<lparr>faculties := replaceFirst i (applyUpdate L (updatedData body) (snd x)) (faculties st)\<rparr>)"
  using assms
  by (simp add: put_faculty_def upload_single_def Faculty_findById_def
      Faculty_findByIdAndUpdate_def Let_def)

lemma put_faculty_file:
  assumes "castObjectId L ident = Some i" and "findId i (faculties st) = Some x"
  shows "fst (put_faculty L now st ident body (Some f))
           = (200, Updated True ''Faculty updated successfully!''
                (Some (i, applyUpdate L
                   (updatedData body @ [(''photo'', Some (photoUrl (multer_filename L now f)))]) (snd x))))"
    and "faculties (snd (put_faculty L now st ident body (Some f)))
           = replaceFirst i (applyUpdate L
                   (updatedData body @ [(''photo'', Some (photoUrl (multer_filename L now f)))]) (snd x))
               (faculties st)"
    and "disk (snd (put_faculty L now st ident body (Some f)))
           = insert (path_join (uploadDir L) (multer_filename L now f)) (disk st)
             - (if truthy (snd x ''photo'') then {path_join (dirname L) (the (snd x ''photo''))} else {})"
    and "users (snd (put_faculty L now st ident body (Some f))) = users st"
  using assms
  by (simp_all add: put_faculty_def upload_single_def Faculty_findById_def
      Faculty_findByIdAndUpdate_def Let_def removePhoto_disk removePhoto_faculties removePhoto_users)

lemma applyUpdate_text:
  assumes "k \<in> set textFields"
  shows "applyUpdate L (updatedData body @ extra) d k
           = (if k \<in> fst ` set extra then applyUpdate L extra (applyUpdate L (updatedData body) d) k
              else (case body k of Some v \<Rightarrow> Some v | None \<Rightarrow> if omitUndefined L then d k else None))"
proof -
  have split: "applyUpdate L (updatedData body @ extra) d
                 = applyUpdate L extra (applyUpdate L (updatedData body) d)"
    by (simp add: applyUpdate_def)
  have "distinct (map fst (updatedData body))"
    by (simp add: updatedData_keys textFields_distinct)
  from applyUpdate_key [OF this updatedData_mem [OF assms] textFields_schema [OF assms]]
  have "applyUpdate L (updatedData body) d k
          = (case body k of Some v \<Rightarrow> Some v | None \<Rightarrow> if omitUndefined L then d k else None)" .
  then show ?thesis
    unfolding split by (simp add: applyUpdate_other)
qed

lemma demo_cast_ada: "castObjectId demo_libs ada_id = Some ada_id"
  by (simp add: demo_libs_def demo_cast_def ada_id_def)

lemma demo_cast_new: "castObjectId demo_libs new_id = Some new_id"
  by (simp add: demo_libs_def demo_cast_def new_id_def)

lemma omitting_cast_ada: "castObjectId omitting_libs ada_id = Some ada_id"
  by (simp add: omitting_libs_def demo_cast_ada)

lemma demo_find_ada: "findId ada_id (faculties demo_state) = Some (ada_id, ada)"
  by (simp add: demo_state_def)

lemma demo_ids_distinct: "distinct (map fst (faculties demo_state))"
  by (simp add: demo_state_def ada_id_def bob_id_def)

lemma list_projection:
  "fields [] ''name designation department photo''
     = [''name'', ''designation'', ''department'', ''photo'']"
  by simp

lemma Faculty_find_mem:
  "((j, e) \<in> set (Faculty_find st p))
     = (\<exists>d. (j, d) \<in> set (faculties st) \<and> e = d |` set (fields [] p))"
  by (force simp: Faculty_find_def)

lemma applyUpdate_photo:
  "applyUpdate L (updatedData body @ [(''photo'', Some p)]) d ''photo'' = Some p"
proof -
  have "distinct (map fst (updatedData body @ [(''photo'', Some p)]))"
    by (simp add: updatedData_keys textFields_distinct photo_not_text)
  from applyUpdate_key [OF this _ photo_schema, of "Some p" L d] show ?thesis by simp
qed

lemma applyUpdate_no_photo: "applyUpdate L (updatedData body) d ''photo'' = d ''photo''"
  by (rule applyUpdate_other) (simp add: updatedData_keys photo_not_text flip: set_map)

lemma demo_filename:
  "multer_filename demo_libs 1700000000500 \<lparr>originalname = ''me.face.jpg''\<rparr> = ''1700000000500.jpg''"
  by (simp add: multer_filename_def demo_libs_def demo_extname_def decimal.simps digit_def)

lemma demo_upload_path:
  "path_join (uploadDir demo_libs) ''1700000000500.jpg'' = ''/app/faculty_uploadss/1700000000500.jpg''"
  by (simp add: uploadDir_def path_join_def demo_libs_def)

lemma demo_old_path:
  "truthy (ada ''photo'')"
  "path_join (dirname demo_libs) (the (ada ''photo'')) = ''/app/faculty_uploadss/1700000000000.png''"
  by (simp_all add: truthy_def ada_def path_join_def demo_libs_def)

lemma delete_faculty_found:
  assumes "castObjectId L ident = Some i" and "findId i (faculties st) = Some x"
  shows "fst (delete_faculty L st ident) = (200, Status True ''Faculty deleted successfully'')"
    and "faculties (snd (delete_faculty L st ident)) = removeFirst i (faculties st)"
    and "disk (snd (delete_faculty L st ident))
           = disk st - (if truthy (snd x ''photo'') then {path_join (dirname L) (the (snd x ''photo''))}
                        else {})"
    and "users (snd (delete_faculty L st ident)) = users st"
  using assms
  by (simp_all add: delete_faculty_def Faculty_findByIdAndDelete_def removePhoto_disk
      removePhoto_faculties removePhoto_users)

lemma delete_faculty_missing:
  "castObjectId L ident = Some i \<Longrightarrow> findId i (faculties st) = None
   \<Longrightarrow> delete_faculty L st ident = ((404, Status False ''Faculty not found''), st)"
  by (simp add: delete_faculty_def Faculty_findByIdAndDelete_def)

lemma delete_faculty_cast_error:
  "castObjectId L ident = None
   \<Longrightarrow> delete_faculty L st ident = ((500, Status False ''Error deleting faculty''), st)"
  by (simp add: delete_faculty_def Faculty_findByIdAndDelete_def)

lemma get_faculty_cast_error:
  "castObjectId L ident = None
   \<Longrightarrow> get_faculty L st ident = ((500, Status False ''Error fetching faculty''), st)"
  by (simp add: get_faculty_def Faculty_findById_def)

lemma upload_single_faculties: "faculties (snd (upload_single L now st file)) = faculties st"
  by (cases "file") (simp_all add: upload_single_def Let_def)

lemma put_faculty_cast_error:
  "castObjectId L ident = None
   \<Longrightarrow> fst (put_faculty L now st ident body file) = (500, Status False ''Error updating faculty'')"
  by (simp add: put_faculty_def Faculty_findById_def split: prod.splits)

lemma put_faculty_missing:
  "castObjectId L ident = Some i \<Longrightarrow> findId i (faculties st) = None
   \<Longrightarrow> fst (put_faculty L now st ident body file) = (404, Status False ''Faculty not found'')"
  using upload_single_faculties [of L now st "file"]
  by (auto simp: put_faculty_def Faculty_findById_def split: prod.splits)

lemma put_faculty_status_found:
  "castObjectId L ident = Some i \<Longrightarrow> findId i (faculties st) = Some x
   \<Longrightarrow> fst (fst (put_faculty L now st ident body file)) = 200"
  using put_faculty_plain [of L ident i st x now body] put_faculty_file(1) [of L ident i st x now body]
  by (cases "file") simp_all

lemma demo_new_id_fresh: "new_id \<notin> fst ` set (faculties demo_state)"
  by (simp add: demo_state_def ada_id_def bob_id_def new_id_def)

lemma demo_cast_abc: "castObjectId demo_libs ''abc'' = None"
  by (simp add: demo_libs_def demo_cast_def)

lemma newFacultyData_keys: "map fst (newFacultyData body reqFile) = facultySchema"
  by (simp add: newFacultyData_def facultySchema_def)

lemma facultySchema_distinct: "distinct facultySchema"
  by (simp add: facultySchema_def)

lemma new_Faculty_photo:
  "new_Faculty (newFacultyData body reqFile) ''photo''
     = Some (case reqFile of Some fname \<Rightarrow> photoUrl fname | None \<Rightarrow> '''')"
proof -
  have "distinct (map fst (newFacultyData body reqFile))"
    by (simp add: newFacultyData_keys facultySchema_distinct)
  from new_Faculty_key [OF this _ photo_schema] show ?thesis
    by (simp add: newFacultyData_def)
qed

lemma new_Faculty_text:
  assumes "k \<in> set textFields"
  shows "new_Faculty (newFacultyData body reqFile) k = body k"
proof -
  have "distinct (map fst (newFacultyData body reqFile))"
    by (simp add: newFacultyData_keys facultySchema_distinct)
  moreover from assms have "(k, body k) \<in> set (newFacultyData body reqFile)"
    by (auto simp: textFields_def newFacultyData_def)
  ultimately show ?thesis
    using textFields_schema [OF assms] by (rule new_Faculty_key)
qed

lemma upload_single_eq:
  "upload_single L now st file
     = (map_option (multer_filename L now) file,
        st\<lparr>disk := (case file of
                      None \<Rightarrow> disk st
                    | Some f \<Rightarrow> insert (path_join (uploadDir L) (multer_filename L now f)) (disk st))\<rparr>)"
  by (cases "file") (simp_all add: upload_single_def Let_def)

lemma post_faculty_fresh:
  assumes "newId \<notin> fst ` set (faculties st)"
  shows "fst (post_faculty L now newId st body file) = (200, Status True ''Faculty saved successfully!'')"
    and "faculties (snd (post_faculty L now newId st body file))
           = faculties st
             @ [(newId, new_Faculty (newFacultyData body (map_option (multer_filename L now) file)))]"
    and "disk (snd (post_faculty L now newId st body file))
           = (case file of
                None \<Rightarrow> disk st
              | Some f \<Rightarrow> insert (path_join (uploadDir L) (multer_filename L now f)) (disk st))"
    and "users (snd (post_faculty L now newId st body file)) = users st"
  using assms
  by (simp_all add: post_faculty_def upload_single_eq Faculty_save_def Let_def)

lemma post_faculty_duplicate:
  "newId \<in> fst ` set (faculties st)
   \<Longrightarrow> fst (post_faculty L now newId st body file) = (500, Status False ''Error saving faculty'')"
  by (simp add: post_faculty_def upload_single_eq Faculty_save_def Let_def)

lemma append_new_only:
  "i \<notin> fst ` set xs \<Longrightarrow> (i, e) \<in> set (xs @ [(i, d)]) \<Longrightarrow> e = d"
  by force

lemma get_faculties_ids:
  "map fst (Faculty_find st p) = map fst (faculties st)"
  by (simp add: Faculty_find_def case_prod_unfold comp_def)

lemma demo_decimal: "decimal 1700000000500 = ''1700000000500''"
  by (simp add: decimal.simps digit_def)

lemma demo_ext: "path_extname demo_libs ''me.face.jpg'' = ''.jpg''"
  by (simp add: demo_libs_def demo_extname_def)

lemma new_Faculty_empty: "new_Faculty (newFacultyData Map.empty None) = [''photo'' \<mapsto> '''']"
  by (rule ext) (simp add: new_Faculty_def newFacultyData_def facultySchema_def)

lemma distinct_removeFirst:
  "distinct (map fst xs) \<Longrightarrow> distinct (map fst (removeFirst i xs))"
proof (induction xs)
  case Nil
  then show ?case by simp
next
  case (Cons x xs)
  have "fst x \<notin> fst ` set (removeFirst i xs)"
    using Cons.prems set_removeFirst_subset [of i xs] by auto
  with Cons show ?case by simp
qed

text \<open>The handlers keep the ids of the \<open>Faculty\<close> collection distinct.\<close>

lemma ids_stay_distinct:
  assumes "distinct (map fst (faculties st))"
  shows "distinct (map fst (faculties (snd (post_faculty L now newId st body file))))"
    and "distinct (map fst (faculties (snd (put_faculty L now st ident body file))))"
    and "distinct (map fst (faculties (snd (delete_faculty L st ident))))"
proof -
  show "distinct (map fst (faculties (snd (post_faculty L now newId st body file))))"
    using assms
    by (cases "newId \<in> fst ` set (faculties st)")
      (simp_all add: post_faculty_def upload_single_eq Faculty_save_def Let_def)
  show "distinct (map fst (faculties (snd (put_faculty L now st ident body file))))"
  proof (cases "castObjectId L ident")
    case None
    then show ?thesis
      using assms by (simp add: put_faculty_def upload_single_eq Faculty_findById_def)
  next
    case (Some i)
    show ?thesis
    proof (cases "findId i (faculties st)")
      case None
      with Some show ?thesis
        using assms by (simp add: put_faculty_def upload_single_eq Faculty_findById_def)
    next
      case (Some x)
      with \<open>castObjectId L ident = Some i\<close> show ?thesis
        using assms put_faculty_plain [of L ident i st x now body]
          put_faculty_file(2) [of L ident i st x now body]
        by (cases "file") (simp_all add: map_fst_replaceFirst)
    qed
  qed
  show "distinct (map fst (faculties (snd (delete_faculty L st ident))))"
  proof (cases "castObjectId L ident")
    case None
    then show ?thesis using assms by (simp add: delete_faculty_cast_error)
  next
    case (Some i)
    show ?thesis
    proof (cases "findId i (faculties st)")
      case None
      with Some show ?thesis using assms by (simp add: delete_faculty_missing)
    next
      case (Some x)
      with \<open>castObjectId L ident = Some i\<close> show ?thesis
        using assms by (simp add: delete_faculty_found(2) distinct_removeFirst)
    qed
  qed
qed

lemma below_ten:
  "k < 10 \<Longrightarrow> k = 0 \<or> k = 1 \<or> k = 2 \<or> k = 3 \<or> k = 4 \<or> k = 5 \<or> k = 6 \<or> k = 7 \<or> k = 8 \<or> k = (9::nat)"
  by arith

lemma digitValue_digit: "k < 10 \<Longrightarrow> digitValue (digit k) = k"
  using below_ten [of k] by (auto simp: digit_def digitValue_def)

lemma digit_zero: "k < 10 \<Longrightarrow> (digit k = CHR ''0'') = (k = 0)"
  using below_ten [of k] by (auto simp: digit_def)

lemma numberOf_snoc: "numberOf (s @ [c]) = 10 * numberOf s + digitValue c"
  by (simp add: numberOf_def)

text \<open>The digits of the rendering are those of the number, and none is a leading zero.\<close>

lemma numberOf_decimal: "numberOf (decimal n) = n"
proof (induction n rule: decimal.induct)
  case (1 n)
  show ?case
  proof (cases "n < 10")
    case True
    then show ?thesis
      by (subst decimal.simps) (simp add: numberOf_def digitValue_digit)
  next
    case False
    have "digitValue (digit (n mod 10)) = n mod 10" by (rule digitValue_digit) simp
    with False 1 show ?thesis
      by (subst decimal.simps) (simp add: numberOf_snoc)
  qed
qed

lemma decimal_no_leading_zero: "0 < n \<Longrightarrow> hd (decimal n) \<noteq> CHR ''0''"
proof (induction n rule: decimal.induct)
  case (1 n)
  show ?case
  proof (cases "n < 10")
    case True
    with "1.prems" show ?thesis
      by (subst decimal.simps) (simp add: digit_zero)
  next
    case False
    then have pos: "0 < n div 10" by simp
    have "hd (decimal (n div 10)) \<noteq> CHR ''0''" by (rule "1.IH" [OF False pos])
    with False show ?thesis
      by (subst decimal.simps) (simp add: decimal_nonempty)
  qed
qed

lemma decimal_inject: "decimal m = decimal n \<Longrightarrow> m = n"
  by (metis numberOf_decimal)

lemma findId_member:
  "distinct (map fst xs) \<Longrightarrow> (i, d) \<in> set xs \<Longrightarrow> findId i xs = Some (i, d)"
proof (induction xs)
  case Nil
  then show ?case by simp
next
  case (Cons x xs)
  show ?case
  proof (cases "x = (i, d)")
    case True
    then show ?thesis by simp
  next
    case False
    with Cons.prems(2) have mem: "(i, d) \<in> set xs" by simp
    then have "i \<in> fst ` set xs" by force
    with Cons.prems(1) have "fst x \<noteq> i" by auto
    with Cons.IH mem Cons.prems(1) show ?thesis by simp
  qed
qed

section \<open>Registration and login\<close>

text \<open>
  Claim C4. Registering a username that no stored user has succeeds: the response is
  201, and exactly one user is added, whose password is the hash the hasher returned
  for the call. Registering the same username again, with any password and salt, is
  answered 400 \<open>Username already exists\<close> and stores nothing.
\<close>

theorem register_twice:
  assumes "User_findOne st u = None"
      and "bcrypt_hash L p1 10 salt1 = Inr h"
  shows "register L salt1 st \<lparr>username = u, password = p1\<rparr>
           = ((201, Message ''User registered successfully''),
              st\<lparr>users := users st @ [\<lparr>username = u, password = h\<rparr>]\<rparr>)
       \<and> register L salt2 (st\<lparr>users := users st @ [\<lparr>username = u, password = h\<rparr>]\<rparr>)
             \<lparr>username = u, password = p2\<rparr>
           = ((400, Message ''Username already exists''),
              st\<lparr>users := users st @ [\<lparr>username = u, password = h\<rparr>]\<rparr>)"
proof -
  let ?st' = "st\<lparr>users := users st @ [\<lparr>username = u, password = h\<rparr>]\<rparr>"
  have first: "register L salt1 st \<lparr>username = u, password = p1\<rparr>
                 = ((201, Message ''User registered successfully''), ?st')"
    using assms by (simp add: register_def User_save_def)
  have "User_findOne ?st' u = Some \<lparr>username = u, password = h\<rparr>"
    using assms(1) by (simp add: User_findOne_def find_append_last)
  then have "register L salt2 ?st' \<lparr>username = u, password = p2\<rparr>
               = ((400, Message ''Username already exists''), ?st')"
    by (simp add: register_def)
  with first show ?thesis by simp
qed

text \<open>The instance: \<open>carol\<close> registers twice in the demo state.\<close>

theorem register_twice_witness:
  "register demo_libs ''s2'' demo_state \<lparr>username = ''carol'', password = ''pw1''\<rparr>
     = ((201, Message ''User registered successfully''),
        demo_state\<lparr>users := [\<lparr>username = ''alice'', password = ''s1$pw1''\<rparr>,
                               \<lparr>username = ''carol'', password = ''s2$pw1''\<rparr>]\<rparr>)
   \<and> register demo_libs ''s3''
       (demo_state\<lparr>users := [\<lparr>username = ''alice'', password = ''s1$pw1''\<rparr>,
                               \<lparr>username = ''carol'', password = ''s2$pw1''\<rparr>]\<rparr>)
       \<lparr>username = ''carol'', password = ''pw2''\<rparr>
     = ((400, Message ''Username already exists''),
        demo_state\<lparr>users := [\<lparr>username = ''alice'', password = ''s1$pw1''\<rparr>,
                               \<lparr>username = ''carol'', password = ''s2$pw1''\<rparr>]\<rparr>)"
proof -
  have a: "User_findOne demo_state ''carol'' = None"
    by (simp add: User_findOne_def demo_state_def)
  have b: "bcrypt_hash demo_libs ''pw1'' 10 ''s2'' = Inr ''s2$pw1''"
    by (simp add: demo_libs_def demo_hash_def)
  have c: "users demo_state @ [\<lparr>username = ''carol'', password = ''s2$pw1''\<rparr>]
             = [\<lparr>username = ''alice'', password = ''s1$pw1''\<rparr>,
                \<lparr>username = ''carol'', password = ''s2$pw1''\<rparr>]"
    by (simp add: demo_state_def)
  show ?thesis
    using register_twice [OF a b, of "''s3''" "''pw2''"] unfolding c .
qed

text \<open>
  Claim C5. A login with a username that no stored user has, and a login with a stored
  username whose password the hasher rejects, get the same response: status 400 with
  the message \<open>Invalid username or password\<close>.
\<close>

theorem login_failures_alike:
  assumes "User_findOne st (username b1) = None"
      and "User_findOne st (username b2) = Some u"
      and "bcrypt_compare L (password b2) (password u) = Inr False"
  shows "fst (login L st b1) = (400, Message ''Invalid username or password'')
       \<and> fst (login L st b2) = fst (login L st b1)"
  using assms by (simp add: login_def)

text \<open>The instance: an unknown \<open>mallory\<close> and a wrong password for \<open>alice\<close>.\<close>

theorem login_failures_alike_witness:
  "fst (login demo_libs demo_state \<lparr>username = ''mallory'', password = ''pw1''\<rparr>)
     = (400, Message ''Invalid username or password'')
   \<and> fst (login demo_libs demo_state \<lparr>username = ''alice'', password = ''guess''\<rparr>)
     = fst (login demo_libs demo_state \<lparr>username = ''mallory'', password = ''pw1''\<rparr>)"
proof -
  have a: "User_findOne demo_state (username \<lparr>username = ''mallory'', password = ''pw1''\<rparr>) = None"
    by (simp add: User_findOne_def demo_state_def)
  have b: "User_findOne demo_state (username \<lparr>username = ''alice'', password = ''guess''\<rparr>)
             = Some \<lparr>username = ''alice'', password = ''s1$pw1''\<rparr>"
    by (simp add: User_findOne_def demo_state_def)
  have c: "bcrypt_compare demo_libs (password \<lparr>username = ''alice'', password = ''guess''\<rparr>)
             (password \<lparr>username = ''alice'', password = ''s1$pw1''\<rparr>) = Inr False"
    by (simp add: demo_libs_def demo_compare_def)
  show ?thesis by (rule login_failures_alike [OF a b c])
qed

text \<open>
  Claim C8. After a successful registration of \<open>u\<close> with password \<open>p\<close>, a login with
  the same pair is answered 200 with the message \<open>Welcome u\<close> and the username; the
  login leaves the state as it found it, so it creates no token and no session. The
  hasher is taken to accept the password against the hash it produced for it.
\<close>

theorem register_then_login:
  assumes "User_findOne st u = None"
      and "bcrypt_hash L p 10 salt = Inr h"
      and "bcrypt_compare L p h = Inr True"
  shows "fst (register L salt st \<lparr>username = u, password = p\<rparr>)
           = (201, Message ''User registered successfully'')
       \<and> login L (snd (register L salt st \<lparr>username = u, password = p\<rparr>))
             \<lparr>username = u, password = p\<rparr>
           = ((200, Welcome (''Welcome '' @ u) u),
              snd (register L salt st \<lparr>username = u, password = p\<rparr>))"
proof -
  let ?st' = "st\<lparr>users := users st @ [\<lparr>username = u, password = h\<rparr>]\<rparr>"
  have reg: "register L salt st \<lparr>username = u, password = p\<rparr>
               = ((201, Message ''User registered successfully''), ?st')"
    using assms(1,2) by (simp add: register_def User_save_def)
  have "User_findOne ?st' u = Some \<lparr>username = u, password = h\<rparr>"
    using assms(1) by (simp add: User_findOne_def find_append_last)
  then have "login L ?st' \<lparr>username = u, password = p\<rparr> = ((200, Welcome (''Welcome '' @ u) u), ?st')"
    using assms(3) by (simp add: login_def)
  with reg show ?thesis by simp
qed

text \<open>The instance: \<open>dave\<close> registers and logs in.\<close>

theorem register_then_login_witness:
  "fst (register demo_libs ''s9'' demo_state \<lparr>username = ''dave'', password = ''pw1''\<rparr>)
     = (201, Message ''User registered successfully'')
   \<and> login demo_libs (snd (register demo_libs ''s9'' demo_state \<lparr>username = ''dave'', password = ''pw1''\<rparr>))
       \<lparr>username = ''dave'', password = ''pw1''\<rparr>
     = ((200, Welcome ''Welcome dave'' ''dave''),
        snd (register demo_libs ''s9'' demo_state \<lparr>username = ''dave'', password = ''pw1''\<rparr>))"
proof -
  have a: "User_findOne demo_state ''dave'' = None"
    by (simp add: User_findOne_def demo_state_def)
  have b: "bcrypt_hash demo_libs ''pw1'' 10 ''s9'' = Inr ''s9$pw1''"
    by (simp add: demo_libs_def demo_hash_def)
  have c: "bcrypt_compare demo_libs ''pw1'' ''s9$pw1'' = Inr True"
    by (simp add: demo_libs_def demo_compare_def)
  show ?thesis using register_then_login [OF a b c] by simp
qed

section \<open>Faculty records\<close>

text \<open>
  Claim C1, as amended. A \<open>PUT\<close> on a stored record answers 200 with the updated
  record, and a following \<open>GET\<close> of the same id returns it. In the updated record every
  one of the nine text fields that the request supplies has the supplied value. A text
  field that the request omits reaches the store as a key whose value is undefined:
  it is empty afterwards when the store client writes such a key as null, and keeps
  its stored value when the store client drops such a key.
\<close>

theorem update_text_fields:
  assumes "castObjectId L ident = Some i"
      and "findId i (faculties st) = Some (i, old)"
  shows "\<exists>new. fst (put_faculty L now st ident body file)
                  = (200, Updated True ''Faculty updated successfully!'' (Some (i, new)))
             \<and> get_faculty L (snd (put_faculty L now st ident body file)) ident
                  = ((200, Document (i, new)), snd (put_faculty L now st ident body file))
             \<and> (\<forall>k\<in>set textFields.
                   new k = (case body k of
                              Some v \<Rightarrow> Some v
                            | None \<Rightarrow> if omitUndefined L then old k else None))"
proof (cases "file")
  case None
  let ?new = "applyUpdate L (updatedData body) old"
  let ?r = "put_faculty L now st ident body file"
  from put_faculty_plain [OF assms, of now body] None
  have r: "?r = ((200, Updated True ''Faculty updated successfully!'' (Some (i, ?new))),
                 st\<lparr>faculties := replaceFirst i ?new (faculties st)\<rparr>)"
    by simp
  have "findId i (faculties (snd ?r)) = Some (i, ?new)"
    using findId_replaceFirst [OF assms(2)] by (simp add: r)
  then have g: "get_faculty L (snd ?r) ident = ((200, Document (i, ?new)), snd ?r)"
    by (rule get_faculty_found [OF assms(1)])
  have "\<forall>k\<in>set textFields.
          ?new k = (case body k of Some v \<Rightarrow> Some v | None \<Rightarrow> if omitUndefined L then old k else None)"
    using applyUpdate_text [of _ L body "[]" old] by simp
  with r g show ?thesis by auto
next
  case (Some f)
  let ?p = "[(''photo'', Some (photoUrl (multer_filename L now f)))]"
  let ?new = "applyUpdate L (updatedData body @ ?p) old"
  let ?r = "put_faculty L now st ident body file"
  from put_faculty_file [OF assms, of now body f] Some
  have r: "fst ?r = (200, Updated True ''Faculty updated successfully!'' (Some (i, ?new)))"
    and fs: "faculties (snd ?r) = replaceFirst i ?new (faculties st)"
    by simp_all
  have "findId i (faculties (snd ?r)) = Some (i, ?new)"
    using findId_replaceFirst [OF assms(2)] by (simp add: fs)
  then have g: "get_faculty L (snd ?r) ident = ((200, Document (i, ?new)), snd ?r)"
    by (rule get_faculty_found [OF assms(1)])
  have "\<forall>k\<in>set textFields.
          ?new k = (case body k of Some v \<Rightarrow> Some v | None \<Rightarrow> if omitUndefined L then old k else None)"
  proof
    fix k assume k: "k \<in> set textFields"
    with photo_not_text have "k \<noteq> ''photo''" by auto
    with applyUpdate_text [OF k, of L body ?p old]
    show "?new k = (case body k of Some v \<Rightarrow> Some v | None \<Rightarrow> if omitUndefined L then old k else None)"
      by simp
  qed
  with r g show ?thesis by auto
qed

text \<open>
  The instance: a request that supplies only \<open>name\<close>, on the libraries that write an
  undefined key as null.
\<close>

theorem update_text_fields_witness:
  "\<exists>new. get_faculty demo_libs
            (snd (put_faculty demo_libs 1700000000500 demo_state ada_id [''name'' \<mapsto> ''Ada L''] None))
            ada_id
          = ((200, Document (ada_id, new)),
             snd (put_faculty demo_libs 1700000000500 demo_state ada_id [''name'' \<mapsto> ''Ada L''] None))
        \<and> new ''name'' = Some ''Ada L'' \<and> new ''publications'' = None"
proof -
  from update_text_fields [OF demo_cast_ada demo_find_ada, of 1700000000500 "[''name'' \<mapsto> ''Ada L'']" None]
  obtain new where
    g: "get_faculty demo_libs
          (snd (put_faculty demo_libs 1700000000500 demo_state ada_id [''name'' \<mapsto> ''Ada L''] None))
          ada_id
        = ((200, Document (ada_id, new)),
           snd (put_faculty demo_libs 1700000000500 demo_state ada_id [''name'' \<mapsto> ''Ada L''] None))"
    and t: "\<forall>k\<in>set textFields.
              new k = (case [''name'' \<mapsto> ''Ada L''] k of
                         Some v \<Rightarrow> Some v
                       | None \<Rightarrow> if omitUndefined demo_libs then ada k else None)"
    by blast
  have "''name'' \<in> set textFields" and "''publications'' \<in> set textFields"
    by (simp_all add: textFields_def)
  with t have "new ''name'' = Some ''Ada L''" and "new ''publications'' = None"
    by (simp_all add: demo_libs_def)
  with g show ?thesis by blast
qed

text \<open>
  Claim C1 as it was stated fails on the libraries that drop an undefined key: the
  request omits \<open>publications\<close>, and the stored record keeps its value.
\<close>

theorem update_keeps_omitted_field:
  "storedField demo_state ada_id ''publications'' = Some ''Notes''
   \<and> [''name'' \<mapsto> ''Ada L''] ''publications'' = None
   \<and> storedField
       (snd (put_faculty omitting_libs 1700000000500 demo_state ada_id [''name'' \<mapsto> ''Ada L''] None))
       ada_id ''publications'' = Some ''Notes''"
proof -
  have "''publications'' \<in> set textFields" by (simp add: textFields_def)
  from applyUpdate_text [OF this, of omitting_libs "[''name'' \<mapsto> ''Ada L'']" "[]" ada]
  have "applyUpdate omitting_libs (updatedData [''name'' \<mapsto> ''Ada L'']) ada ''publications'' = Some ''Notes''"
    by (simp add: omitting_libs_def ada_def)
  then show ?thesis
    using findId_replaceFirst [OF demo_find_ada]
    by (simp add: storedField_def demo_find_ada put_faculty_plain [OF omitting_cast_ada demo_find_ada] ada_def)
qed

text \<open>
  Claim C2. A \<open>PUT\<close> on a stored record that carries a photo file sets the record's
  \<open>photo\<close> to the path of the new file, and the file the record referred to before
  is no longer on disk; the only other change to the disk is the new upload. A \<open>PUT\<close>
  without a file leaves \<open>photo\<close> and the disk as they were. In both cases a following
  \<open>GET\<close> of the id returns the updated record, and the entry of the id in the list
  carries the same \<open>photo\<close>. The ids of the collection are distinct, as the store keeps
  them.
\<close>

theorem update_photo:
  assumes "castObjectId L ident = Some i"
      and "findId i (faculties st) = Some (i, old)"
      and "distinct (map fst (faculties st))"
  shows "\<exists>new ds.
           fst (put_faculty L now st ident body file)
             = (200, Updated True ''Faculty updated successfully!'' (Some (i, new)))
         \<and> new ''photo''
             = (case file of
                  None \<Rightarrow> old ''photo''
                | Some f \<Rightarrow> Some (photoUrl (multer_filename L now f)))
         \<and> get_faculty L (snd (put_faculty L now st ident body file)) ident
             = ((200, Document (i, new)), snd (put_faculty L now st ident body file))
         \<and> get_faculties (snd (put_faculty L now st ident body file))
             = ((200, Documents ds), snd (put_faculty L now st ident body file))
         \<and> (\<exists>e. (i, e) \<in> set ds)
         \<and> (\<forall>e. (i, e) \<in> set ds \<longrightarrow> e ''photo'' = new ''photo'')
         \<and> disk (snd (put_faculty L now st ident body file))
             = (case file of
                  None \<Rightarrow> disk st
                | Some f \<Rightarrow>
                    insert (path_join (uploadDir L) (multer_filename L now f)) (disk st)
                    - (if truthy (old ''photo'') then {path_join (dirname L) (the (old ''photo''))}
                       else {}))
         \<and> (file \<noteq> None \<and> truthy (old ''photo'')
              \<longrightarrow> path_join (dirname L) (the (old ''photo'')) \<notin> disk (snd (put_faculty L now st ident body file)))"
proof -
  let ?r = "put_faculty L now st ident body file"
  let ?u = "case file of
              None \<Rightarrow> updatedData body
            | Some f \<Rightarrow> updatedData body @ [(''photo'', Some (photoUrl (multer_filename L now f)))]"
  let ?new = "applyUpdate L ?u old"
  let ?ds = "Faculty_find (snd ?r) ''name designation department photo''"
  have r: "fst ?r = (200, Updated True ''Faculty updated successfully!'' (Some (i, ?new)))"
    and fs: "faculties (snd ?r) = replaceFirst i ?new (faculties st)"
    and dk: "disk (snd ?r)
           = (case file of
                None \<Rightarrow> disk st
              | Some f \<Rightarrow>
                  insert (path_join (uploadDir L) (multer_filename L now f)) (disk st)
                  - (if truthy (old ''photo'') then {path_join (dirname L) (the (old ''photo''))}
                     else {}))"
    using put_faculty_plain [OF assms(1,2), of now body] put_faculty_file [OF assms(1,2), of now body]
    by (cases "file"; simp)+
  have ph: "?new ''photo''
              = (case file of
                   None \<Rightarrow> old ''photo''
                 | Some f \<Rightarrow> Some (photoUrl (multer_filename L now f)))"
    by (cases "file") (simp_all add: applyUpdate_photo applyUpdate_no_photo)
  have found: "findId i (faculties (snd ?r)) = Some (i, ?new)"
    using findId_replaceFirst [OF assms(2)] by (simp add: fs)
  then have g: "get_faculty L (snd ?r) ident = ((200, Document (i, ?new)), snd ?r)"
    by (rule get_faculty_found [OF assms(1)])
  have l: "get_faculties (snd ?r) = ((200, Documents ?ds), snd ?r)"
    by (simp add: get_faculties_def)
  from findId_Some [OF found] have "(i, ?new) \<in> set (faculties (snd ?r))" by simp
  then have ex: "\<exists>e. (i, e) \<in> set ?ds"
    unfolding Faculty_find_mem by blast
  have only: "\<forall>e. (i, e) \<in> set ?ds \<longrightarrow> e ''photo'' = ?new ''photo''"
  proof (intro allI impI)
    fix e assume "(i, e) \<in> set ?ds"
    then obtain d where d: "(i, d) \<in> set (faculties (snd ?r))"
      and e: "e = d |` set (fields [] ''name designation department photo'')"
      unfolding Faculty_find_mem by blast
    from d have "d = ?new"
      unfolding fs by (rule replaceFirst_only [OF assms(3)])
    with e show "e ''photo'' = ?new ''photo''"
      by (simp only: list_projection) simp
  qed
  have gone: "file \<noteq> None \<and> truthy (old ''photo'')
                \<longrightarrow> path_join (dirname L) (the (old ''photo'')) \<notin> disk (snd ?r)"
    unfolding dk by (cases "file") simp_all
  from r ph g l ex only dk gone show ?thesis by blast
qed

text \<open>The instance: a new photo for the first record of the demo state.\<close>

theorem update_photo_witness:
  "\<exists>new. get_faculty demo_libs
            (snd (put_faculty demo_libs 1700000000500 demo_state ada_id Map.empty
                    (Some \<lparr>originalname = ''me.face.jpg''\<rparr>)))
            ada_id
          = ((200, Document (ada_id, new)),
             snd (put_faculty demo_libs 1700000000500 demo_state ada_id Map.empty
                    (Some \<lparr>originalname = ''me.face.jpg''\<rparr>)))
        \<and> new ''photo'' = Some ''/faculty_uploadss/1700000000500.jpg''
        \<and> disk (snd (put_faculty demo_libs 1700000000500 demo_state ada_id Map.empty
                        (Some \<lparr>originalname = ''me.face.jpg''\<rparr>)))
          = {''/app/faculty_uploadss/1700000000500.jpg''}"
proof -
  let ?r = "put_faculty demo_libs 1700000000500 demo_state ada_id Map.empty
              (Some \<lparr>originalname = ''me.face.jpg''\<rparr>)"
  from update_photo [OF demo_cast_ada demo_find_ada demo_ids_distinct,
      of 1700000000500 Map.empty "Some \<lparr>originalname = ''me.face.jpg''\<rparr>"]
  obtain new where g: "get_faculty demo_libs (snd ?r) ada_id = ((200, Document (ada_id, new)), snd ?r)"
    and p: "new ''photo'' = Some (photoUrl ''1700000000500.jpg'')"
    and d: "disk (snd ?r)
              = insert ''/app/faculty_uploadss/1700000000500.jpg'' (disk demo_state)
                - {''/app/faculty_uploadss/1700000000000.png''}"
    unfolding demo_filename demo_upload_path option.case
    by (simp only: demo_old_path if_True) blast
  from p have "new ''photo'' = Some ''/faculty_uploadss/1700000000500.jpg''"
    by (simp add: photoUrl_def)
  moreover have "insert ''/app/faculty_uploadss/1700000000500.jpg'' (disk demo_state)
                  - {''/app/faculty_uploadss/1700000000000.png''}
                = {''/app/faculty_uploadss/1700000000500.jpg''}"
    by (auto simp: demo_state_def)
  with d have "disk (snd ?r) = {''/app/faculty_uploadss/1700000000500.jpg''}"
    by (simp only:)
  ultimately show ?thesis using g by blast
qed

text \<open>
  Claim C3, as amended. For an id that the store client can cast to an identifier:
  \<open>DELETE\<close> answers 404 \<open>Faculty not found\<close> and changes nothing when no record has
  the id; when a record has it, the answer is 200, a following \<open>GET\<close> of the id answers
  404, the list has no entry of the id, every other record is still found, and the
  file the record's non-empty \<open>photo\<close> referred to is no longer on disk. The ids of the
  collection are distinct, as the store keeps them.
\<close>

theorem delete_record:
  assumes "castObjectId L ident = Some i"
      and "distinct (map fst (faculties st))"
  shows "(i \<notin> fst ` set (faculties st)
            \<longrightarrow> delete_faculty L st ident = ((404, Status False ''Faculty not found''), st))
       \<and> (\<forall>d. findId i (faculties st) = Some (i, d) \<longrightarrow>
              fst (delete_faculty L st ident) = (200, Status True ''Faculty deleted successfully'')
            \<and> get_faculty L (snd (delete_faculty L st ident)) ident
                = ((404, Status False ''Faculty not found''), snd (delete_faculty L st ident))
            \<and> (\<exists>ds. get_faculties (snd (delete_faculty L st ident))
                        = ((200, Documents ds), snd (delete_faculty L st ident))
                    \<and> i \<notin> fst ` set ds)
            \<and> (\<forall>j. j \<noteq> i \<longrightarrow> findId j (faculties (snd (delete_faculty L st ident)))
                                   = findId j (faculties st))
            \<and> disk (snd (delete_faculty L st ident))
                = disk st - (if truthy (d ''photo'') then {path_join (dirname L) (the (d ''photo''))}
                             else {})
            \<and> (truthy (d ''photo'')
                 \<longrightarrow> path_join (dirname L) (the (d ''photo'')) \<notin> disk (snd (delete_faculty L st ident))))"
proof (intro conjI allI impI)
  assume "i \<notin> fst ` set (faculties st)"
  then have "findId i (faculties st) = None" by (simp add: findId_None)
  then show "delete_faculty L st ident = ((404, Status False ''Faculty not found''), st)"
    by (rule delete_faculty_missing [OF assms(1)])
next
  fix d assume found: "findId i (faculties st) = Some (i, d)"
  let ?st' = "snd (delete_faculty L st ident)"
  note del = delete_faculty_found [OF assms(1) found]
  show "fst (delete_faculty L st ident) = (200, Status True ''Faculty deleted successfully'')"
    by (rule del(1))
  have gone: "i \<notin> fst ` set (faculties ?st')"
    unfolding del(2) by (rule removeFirst_gone [OF assms(2)])
  then have "findId i (faculties ?st') = None" by (simp add: findId_None)
  then show "get_faculty L ?st' ident = ((404, Status False ''Faculty not found''), ?st')"
    by (rule get_faculty_missing [OF assms(1)])
  have "i \<notin> fst ` set (Faculty_find ?st' ''name designation department photo'')"
  proof
    assume "i \<in> fst ` set (Faculty_find ?st' ''name designation department photo'')"
    then obtain e where "(i, e) \<in> set (Faculty_find ?st' ''name designation department photo'')"
      by force
    then obtain d' where "(i, d') \<in> set (faculties ?st')"
      unfolding Faculty_find_mem by blast
    then have "i \<in> fst ` set (faculties ?st')" by force
    with gone show False by contradiction
  qed
  then show "\<exists>ds. get_faculties ?st' = ((200, Documents ds), ?st') \<and> i \<notin> fst ` set ds"
    by (simp add: get_faculties_def)
  show "disk ?st' = disk st - (if truthy (d ''photo'') then {path_join (dirname L) (the (d ''photo''))}
                              else {})"
    using del(3) by simp
  then show "path_join (dirname L) (the (d ''photo'')) \<notin> disk ?st'" if "truthy (d ''photo'')"
    using that by simp
  show "findId j (faculties ?st') = findId j (faculties st)" if "j \<noteq> i" for j
    unfolding del(2) using that by (rule removeFirst_others)
qed

text \<open>
  Claim C3 as it was stated fails at an id that the store client cannot cast: no record
  has the id \<open>abc\<close>, and \<open>DELETE\<close> answers 500, not 404.
\<close>

theorem delete_malformed_id:
  "''abc'' \<notin> fst ` set (faculties demo_state)
   \<and> delete_faculty demo_libs demo_state ''abc''
       = ((500, Status False ''Error deleting faculty''), demo_state)"
proof -
  have "castObjectId demo_libs ''abc'' = None"
    by (simp add: demo_libs_def demo_cast_def)
  from delete_faculty_cast_error [OF this]
  show ?thesis by (simp add: demo_state_def ada_id_def bob_id_def)
qed

text \<open>
  The instance: deleting an id that no record has, and deleting the first record of the
  demo state, whose photo is the one file on disk.
\<close>

theorem delete_record_witness:
  "delete_faculty demo_libs demo_state new_id = ((404, Status False ''Faculty not found''), demo_state)
   \<and> fst (delete_faculty demo_libs demo_state ada_id)
       = (200, Status True ''Faculty deleted successfully'')
   \<and> get_faculty demo_libs (snd (delete_faculty demo_libs demo_state ada_id)) ada_id
       = ((404, Status False ''Faculty not found''), snd (delete_faculty demo_libs demo_state ada_id))
   \<and> disk (snd (delete_faculty demo_libs demo_state ada_id)) = {}"
proof -
  from delete_record [OF demo_cast_new demo_ids_distinct] demo_new_id_fresh
  have a: "delete_faculty demo_libs demo_state new_id
             = ((404, Status False ''Faculty not found''), demo_state)"
    by blast
  from delete_record [OF demo_cast_ada demo_ids_distinct] demo_find_ada
  have b: "fst (delete_faculty demo_libs demo_state ada_id)
             = (200, Status True ''Faculty deleted successfully'')"
    and c: "get_faculty demo_libs (snd (delete_faculty demo_libs demo_state ada_id)) ada_id
             = ((404, Status False ''Faculty not found''), snd (delete_faculty demo_libs demo_state ada_id))"
    and d: "disk (snd (delete_faculty demo_libs demo_state ada_id))
             = disk demo_state - (if truthy (ada ''photo'')
                                  then {path_join (dirname demo_libs) (the (ada ''photo''))} else {})"
    by blast+
  have "disk demo_state - (if truthy (ada ''photo'')
                           then {path_join (dirname demo_libs) (the (ada ''photo''))} else {}) = {}"
    by (simp add: demo_old_path) (simp add: demo_state_def)
  with d have "disk (snd (delete_faculty demo_libs demo_state ada_id)) = {}"
    by (simp only:)
  with a b c show ?thesis by (simp only: simp_thms)
qed

text \<open>
  Claim C9. For an id that the store client cannot cast to an identifier, \<open>GET\<close>,
  \<open>PUT\<close> and \<open>DELETE\<close> of \<open>/api/faculty/:id\<close> answer 500 with the generic message of
  the route. Each of the three answers 404 exactly when the id can be cast and no
  record has the identifier.
\<close>

theorem malformed_id:
  "(castObjectId L ident = None \<longrightarrow>
      fst (get_faculty L st ident) = (500, Status False ''Error fetching faculty'')
    \<and> fst (put_faculty L now st ident body file) = (500, Status False ''Error updating faculty'')
    \<and> fst (delete_faculty L st ident) = (500, Status False ''Error deleting faculty''))
   \<and> (fst (fst (get_faculty L st ident)) = 404)
       = (\<exists>i. castObjectId L ident = Some i \<and> i \<notin> fst ` set (faculties st))
   \<and> (fst (fst (put_faculty L now st ident body file)) = 404)
       = (\<exists>i. castObjectId L ident = Some i \<and> i \<notin> fst ` set (faculties st))
   \<and> (fst (fst (delete_faculty L st ident)) = 404)
       = (\<exists>i. castObjectId L ident = Some i \<and> i \<notin> fst ` set (faculties st))"
proof (cases "castObjectId L ident")
  case None
  then show ?thesis
    by (simp add: get_faculty_cast_error put_faculty_cast_error delete_faculty_cast_error)
next
  case (Some i)
  show ?thesis
  proof (cases "findId i (faculties st)")
    case None
    then have "i \<notin> fst ` set (faculties st)" by (simp add: findId_None)
    with Some None show ?thesis
      by (simp add: get_faculty_missing put_faculty_missing delete_faculty_missing)
  next
    case (Some x)
    then have "\<not> i \<notin> fst ` set (faculties st)" by (simp flip: findId_None)
    with \<open>castObjectId L ident = Some i\<close> Some show ?thesis
      by (simp add: get_faculty_found put_faculty_status_found delete_faculty_found(1))
  qed
qed

text \<open>The instance: the id \<open>abc\<close>, and a well-formed id that no record has.\<close>

theorem malformed_id_witness:
  "fst (get_faculty demo_libs demo_state ''abc'') = (500, Status False ''Error fetching faculty'')
   \<and> fst (put_faculty demo_libs 1700000000500 demo_state ''abc'' Map.empty None)
       = (500, Status False ''Error updating faculty'')
   \<and> fst (delete_faculty demo_libs demo_state ''abc'') = (500, Status False ''Error deleting faculty'')
   \<and> fst (fst (get_faculty demo_libs demo_state new_id)) = 404
   \<and> fst (fst (put_faculty demo_libs 1700000000500 demo_state new_id Map.empty None)) = 404
   \<and> fst (fst (delete_faculty demo_libs demo_state new_id)) = 404"
proof -
  from malformed_id [of demo_libs "''abc''" demo_state 1700000000500 Map.empty None] demo_cast_abc
  have a: "fst (get_faculty demo_libs demo_state ''abc'') = (500, Status False ''Error fetching faculty'')
     \<and> fst (put_faculty demo_libs 1700000000500 demo_state ''abc'' Map.empty None)
         = (500, Status False ''Error updating faculty'')
     \<and> fst (delete_faculty demo_libs demo_state ''abc'') = (500, Status False ''Error deleting faculty'')"
    by blast
  have "\<exists>i. castObjectId demo_libs new_id = Some i \<and> i \<notin> fst ` set (faculties demo_state)"
    using demo_cast_new demo_new_id_fresh by blast
  with malformed_id [of demo_libs new_id demo_state 1700000000500 Map.empty None]
  have "fst (fst (get_faculty demo_libs demo_state new_id)) = 404
     \<and> fst (fst (put_faculty demo_libs 1700000000500 demo_state new_id Map.empty None)) = 404
     \<and> fst (fst (delete_faculty demo_libs demo_state new_id)) = 404"
    by blast
  with a show ?thesis by blast
qed

text \<open>
  Claim C10. A \<open>POST\<close> with a fresh identifier for the new record succeeds whatever the
  body and the file are: no field is required. With an empty body and no file the
  answer is \<open>{success: true}\<close>, the one change to the state is a new record whose
  \<open>photo\<close> is the empty string and whose other fields are unset, and a following
  \<open>GET\<close> of the new id returns that record.
\<close>

theorem create_without_fields:
  assumes "newId \<notin> fst ` set (faculties st)"
      and "castObjectId L ident = Some newId"
  shows "fst (post_faculty L now newId st body file) = (200, Status True ''Faculty saved successfully!'')
       \<and> post_faculty L now newId st Map.empty None
           = ((200, Status True ''Faculty saved successfully!''),
              st\<lparr>faculties := faculties st @ [(newId, [''photo'' \<mapsto> ''''])]\<rparr>)
       \<and> get_faculty L (snd (post_faculty L now newId st Map.empty None)) ident
           = ((200, Document (newId, [''photo'' \<mapsto> ''''])),
              snd (post_faculty L now newId st Map.empty None))"
proof -
  let ?st' = "st\<lparr>faculties := faculties st @ [(newId, [''photo'' \<mapsto> ''''])]\<rparr>"
  have any: "fst (post_faculty L now newId st body file)
               = (200, Status True ''Faculty saved successfully!'')"
    by (rule post_faculty_fresh(1) [OF assms(1)])
  have post: "post_faculty L now newId st Map.empty None
                = ((200, Status True ''Faculty saved successfully!''), ?st')"
    using assms(1)
    by (simp add: post_faculty_def upload_single_def Faculty_save_def new_Faculty_empty)
  have "findId newId (faculties ?st') = Some (newId, [''photo'' \<mapsto> ''''])"
    using findId_append_new [OF assms(1)] by simp
  then have "get_faculty L ?st' ident = ((200, Document (newId, [''photo'' \<mapsto> ''''])), ?st')"
    by (rule get_faculty_found [OF assms(2)])
  with any post show ?thesis by simp
qed

text \<open>The instance: an empty request on the demo state.\<close>

theorem create_without_fields_witness:
  "post_faculty demo_libs 1700000000500 new_id demo_state Map.empty None
     = ((200, Status True ''Faculty saved successfully!''),
        demo_state\<lparr>faculties := [(ada_id, ada), (bob_id, bob), (new_id, [''photo'' \<mapsto> ''''])]\<rparr>)
   \<and> get_faculty demo_libs (snd (post_faculty demo_libs 1700000000500 new_id demo_state Map.empty None))
       new_id
     = ((200, Document (new_id, [''photo'' \<mapsto> ''''])),
        snd (post_faculty demo_libs 1700000000500 new_id demo_state Map.empty None))"
proof -
  have eq: "faculties demo_state @ [(new_id, [''photo'' \<mapsto> ''''])]
          = [(ada_id, ada), (bob_id, bob), (new_id, [''photo'' \<mapsto> ''''])]"
    by (simp add: demo_state_def)
  from create_without_fields [OF demo_new_id_fresh demo_cast_new, of 1700000000500 Map.empty None]
  have a: "post_faculty demo_libs 1700000000500 new_id demo_state Map.empty None
             = ((200, Status True ''Faculty saved successfully!''),
                demo_state\<lparr>faculties := faculties demo_state @ [(new_id, [''photo'' \<mapsto> ''''])]\<rparr>)"
    and b: "get_faculty demo_libs
              (snd (post_faculty demo_libs 1700000000500 new_id demo_state Map.empty None)) new_id
             = ((200, Document (new_id, [''photo'' \<mapsto> ''''])),
                snd (post_faculty demo_libs 1700000000500 new_id demo_state Map.empty None))"
    by blast+
  from a [unfolded eq] b show ?thesis by (rule conjI)
qed

text \<open>
  Claim C6, as amended. The list has one entry for each stored record, in order, under
  the id of the record. Of the fields of the schema an entry has none but \<open>name\<close>,
  \<open>designation\<close>, \<open>department\<close> and \<open>photo\<close>, each with the value the stored
  record has for it; in particular none of \<open>publications\<close>,
  \<open>researchProjects\<close>, \<open>articlesAndJournals\<close>, \<open>workshops\<close>, \<open>coursesHandled\<close>
  and \<open>awardsReceived\<close> is in it. A \<open>GET\<close> of the id of a record of the collection
  answers 200 with the document of that record as it is stored, not projected: each
  of the six fields is in the response when the record has it set, with its stored
  value, and is absent when the record has it unset. The entry of the id in the list
  is that document cut down to the four fields. The ids of the collection are
  distinct, as the store keeps them.
\<close>

theorem list_and_get_fields:
  "\<exists>ds. get_faculties st = ((200, Documents ds), st)
        \<and> map fst ds = map fst (faculties st)
        \<and> (\<forall>(j, r)\<in>set ds.
              dom r \<subseteq> {''name'', ''designation'', ''department'', ''photo''}
            \<and> (\<forall>k\<in>{''publications'', ''researchProjects'', ''articlesAndJournals'',
                     ''workshops'', ''coursesHandled'', ''awardsReceived''}. r k = None)
            \<and> (\<exists>d. (j, d) \<in> set (faculties st)
                   \<and> (\<forall>k\<in>{''name'', ''designation'', ''department'', ''photo''}. r k = d k)))
        \<and> (distinct (map fst (faculties st)) \<longrightarrow>
             (\<forall>i d. castObjectId L ident = Some i \<and> (i, d) \<in> set (faculties st) \<longrightarrow>
                (\<exists>e. get_faculty L st ident = ((200, Document (i, e)), st)
                   \<and> (\<forall>k. e k = d k)
                   \<and> (\<forall>k\<in>{''publications'', ''researchProjects'', ''articlesAndJournals'',
                            ''workshops'', ''coursesHandled'', ''awardsReceived''}.
                         (k \<in> dom e) = (k \<in> dom d)))
              \<and> (\<forall>r. (i, r) \<in> set ds
                     \<longrightarrow> r = d |` {''name'', ''designation'', ''department'', ''photo''})))"
proof -
  let ?keep = "{''name'', ''designation'', ''department'', ''photo''}"
  let ?ds = "Faculty_find st ''name designation department photo''"
  have keep: "set (fields [] ''name designation department photo'') = ?keep"
    by (simp only: list_projection) simp
  have a: "get_faculties st = ((200, Documents ?ds), st)"
    by (simp add: get_faculties_def)
  have b: "map fst ?ds = map fst (faculties st)"
    by (rule get_faculties_ids)
  have c: "\<forall>(j, r)\<in>set ?ds.
              dom r \<subseteq> ?keep
            \<and> (\<forall>k\<in>{''publications'', ''researchProjects'', ''articlesAndJournals'',
                     ''workshops'', ''coursesHandled'', ''awardsReceived''}. r k = None)
            \<and> (\<exists>d. (j, d) \<in> set (faculties st) \<and> (\<forall>k\<in>?keep. r k = d k))"
  proof (intro ballI, clarify)
    fix j r assume "(j, r) \<in> set ?ds"
    then obtain d where d: "(j, d) \<in> set (faculties st)" and r: "r = d |` ?keep"
      unfolding Faculty_find_mem keep by blast
    have "dom r \<subseteq> ?keep" unfolding r by (rule subsetI) (simp add: dom_restrict)
    moreover have "\<forall>k\<in>{''publications'', ''researchProjects'', ''articlesAndJournals'',
                     ''workshops'', ''coursesHandled'', ''awardsReceived''}. r k = None"
      unfolding r by (simp add: restrict_map_def)
    moreover have "\<forall>k\<in>?keep. r k = d k"
      unfolding r by (simp add: restrict_map_def)
    ultimately show "dom r \<subseteq> ?keep
            \<and> (\<forall>k\<in>{''publications'', ''researchProjects'', ''articlesAndJournals'',
                     ''workshops'', ''coursesHandled'', ''awardsReceived''}. r k = None)
            \<and> (\<exists>d. (j, d) \<in> set (faculties st) \<and> (\<forall>k\<in>?keep. r k = d k))"
      using d by blast
  qed
  have e: "(\<exists>e. get_faculty L st ident = ((200, Document (i, e)), st)
                   \<and> (\<forall>k. e k = d k)
                   \<and> (\<forall>k\<in>{''publications'', ''researchProjects'', ''articlesAndJournals'',
                            ''workshops'', ''coursesHandled'', ''awardsReceived''}.
                         (k \<in> dom e) = (k \<in> dom d)))
              \<and> (\<forall>r. (i, r) \<in> set ?ds \<longrightarrow> r = d |` ?keep)"
    if dist: "distinct (map fst (faculties st))"
      and cast: "castObjectId L ident = Some i"
      and mem: "(i, d) \<in> set (faculties st)" for i d
  proof
    have "findId i (faculties st) = Some (i, d)"
      by (rule findId_member [OF dist mem])
    then have "get_faculty L st ident = ((200, Document (i, d)), st)"
      by (rule get_faculty_found [OF cast])
    then show "\<exists>e. get_faculty L st ident = ((200, Document (i, e)), st)
                   \<and> (\<forall>k. e k = d k)
                   \<and> (\<forall>k\<in>{''publications'', ''researchProjects'', ''articlesAndJournals'',
                            ''workshops'', ''coursesHandled'', ''awardsReceived''}.
                         (k \<in> dom e) = (k \<in> dom d))"
      by blast
    show "\<forall>r. (i, r) \<in> set ?ds \<longrightarrow> r = d |` ?keep"
    proof (intro allI impI)
      fix r assume "(i, r) \<in> set ?ds"
      then obtain d' where d': "(i, d') \<in> set (faculties st)" and r: "r = d' |` ?keep"
        unfolding Faculty_find_mem keep by blast
      from findId_member [OF dist d'] findId_member [OF dist mem] have "d' = d" by simp
      with r show "r = d |` ?keep" by simp
    qed
  qed
  from a b c e show ?thesis by blast
qed

text \<open>
  The instance: the entry of the first record of the demo state in the list has no
  \<open>publications\<close>; a \<open>GET\<close> of its id returns them, and does not return
  \<open>awardsReceived\<close>, which the record has unset.
\<close>

theorem list_and_get_fields_witness:
  "\<exists>ds r e. get_faculties demo_state = ((200, Documents ds), demo_state)
          \<and> (ada_id, r) \<in> set ds
          \<and> r ''name'' = Some ''Ada''
          \<and> r ''publications'' = None
          \<and> get_faculty demo_libs demo_state ada_id = ((200, Document (ada_id, e)), demo_state)
          \<and> e ''publications'' = Some ''Notes''
          \<and> e ''awardsReceived'' = None"
proof -
  have mem: "(ada_id, ada) \<in> set (faculties demo_state)"
    by (simp add: demo_state_def)
  from list_and_get_fields [of demo_state demo_libs ada_id]
  obtain ds where all:
    "get_faculties demo_state = ((200, Documents ds), demo_state)
        \<and> map fst ds = map fst (faculties demo_state)
        \<and> (\<forall>(j, r)\<in>set ds.
              dom r \<subseteq> {''name'', ''designation'', ''department'', ''photo''}
            \<and> (\<forall>k\<in>{''publications'', ''researchProjects'', ''articlesAndJournals'',
                     ''workshops'', ''coursesHandled'', ''awardsReceived''}. r k = None)
            \<and> (\<exists>d. (j, d) \<in> set (faculties demo_state)
                   \<and> (\<forall>k\<in>{''name'', ''designation'', ''department'', ''photo''}. r k = d k)))
        \<and> (distinct (map fst (faculties demo_state)) \<longrightarrow>
             (\<forall>i d. castObjectId demo_libs ada_id = Some i \<and> (i, d) \<in> set (faculties demo_state) \<longrightarrow>
                (\<exists>e. get_faculty demo_libs demo_state ada_id = ((200, Document (i, e)), demo_state)
                   \<and> (\<forall>k. e k = d k)
                   \<and> (\<forall>k\<in>{''publications'', ''researchProjects'', ''articlesAndJournals'',
                            ''workshops'', ''coursesHandled'', ''awardsReceived''}.
                         (k \<in> dom e) = (k \<in> dom d)))
              \<and> (\<forall>r. (i, r) \<in> set ds
                     \<longrightarrow> r = d |` {''name'', ''designation'', ''department'', ''photo''})))" ..
  note l = all [THEN conjunct1]
  note ids = all [THEN conjunct2, THEN conjunct1]
  note full = all [THEN conjunct2, THEN conjunct2, THEN conjunct2]
  note at_ada = full [THEN mp, OF demo_ids_distinct, THEN spec, THEN spec, THEN mp,
      OF conjI [OF demo_cast_ada mem]]
  from at_ada [THEN conjunct1]
  obtain e where g: "get_faculty demo_libs demo_state ada_id = ((200, Document (ada_id, e)), demo_state)"
    and e: "\<forall>k. e k = ada k"
    by (elim exE conjE)
  note cut = at_ada [THEN conjunct2]
  have "ada_id \<in> set (map fst (faculties demo_state))"
    by (simp add: demo_state_def)
  then have "ada_id \<in> fst ` set ds" by (simp flip: ids)
  then obtain r where r: "(ada_id, r) \<in> set ds" by force
  with cut have "r = ada |` {''name'', ''designation'', ''department'', ''photo''}" by (elim allE impE)
  then have "r ''name'' = Some ''Ada''" and "r ''publications'' = None"
    by (simp_all add: ada_def restrict_map_def)
  moreover from e have "e ''publications'' = Some ''Notes''" and "e ''awardsReceived'' = None"
    by (simp_all add: ada_def)
  ultimately show ?thesis using l r g by (intro exI conjI)
qed

text \<open>
  Claim C6 as it was stated fails at a record created without the six fields: the
  \<open>POST\<close> succeeds, and the \<open>GET\<close> of the new id answers 200 with a record that has
  only \<open>photo\<close>, so \<open>publications\<close> is not in the response.
\<close>

theorem get_lacks_unset_fields:
  "fst (post_faculty demo_libs 1700000000500 new_id demo_state Map.empty None)
     = (200, Status True ''Faculty saved successfully!'')
   \<and> fst (get_faculty demo_libs
            (snd (post_faculty demo_libs 1700000000500 new_id demo_state Map.empty None)) new_id)
     = (200, Document (new_id, [''photo'' \<mapsto> '''']))
   \<and> [''photo'' \<mapsto> ''''] ''publications'' = None"
proof -
  let ?r = "post_faculty demo_libs 1700000000500 new_id demo_state Map.empty None"
  note post = post_faculty_fresh [OF demo_new_id_fresh, of demo_libs 1700000000500 Map.empty None]
  have "findId new_id (faculties (snd ?r)) = Some (new_id, [''photo'' \<mapsto> ''''])"
    unfolding post(2) using findId_append_new [OF demo_new_id_fresh]
    by (simp add: new_Faculty_empty)
  from get_faculty_found [OF demo_cast_new this] post(1) show ?thesis by simp
qed

text \<open>
  Claim C7. A \<open>POST\<close> with a fresh identifier for the new record answers success,
  whatever the body. With a photo file the stored \<open>photo\<close> is \<open>/faculty_uploadss/\<close>
  followed by the clock at the upload written in decimal and the extension of the
  file's original name, and the file is on disk under the upload directory; without
  a file \<open>photo\<close> is the empty string. The decimal text is not empty, has only digits
  and no leading zero, and read back as a number it is the clock. A following \<open>GET\<close>
  of the new id returns the record, and the list has it with the same \<open>photo\<close>.
\<close>

theorem create_photo:
  assumes "newId \<notin> fst ` set (faculties st)"
      and "castObjectId L ident = Some newId"
  shows "\<exists>d ds.
           fst (post_faculty L now newId st body file) = (200, Status True ''Faculty saved successfully!'')
         \<and> get_faculty L (snd (post_faculty L now newId st body file)) ident
             = ((200, Document (newId, d)), snd (post_faculty L now newId st body file))
         \<and> d ''photo''
             = Some (case file of
                       None \<Rightarrow> ''''
                     | Some f \<Rightarrow> ''/faculty_uploadss/'' @ decimal now @ path_extname L (originalname f))
         \<and> decimal now \<noteq> [] \<and> set (decimal now) \<subseteq> set ''0123456789''
         \<and> numberOf (decimal now) = now
         \<and> (0 < now \<longrightarrow> hd (decimal now) \<noteq> CHR ''0'')
         \<and> get_faculties (snd (post_faculty L now newId st body file))
             = ((200, Documents ds), snd (post_faculty L now newId st body file))
         \<and> (\<exists>e. (newId, e) \<in> set ds)
         \<and> (\<forall>e. (newId, e) \<in> set ds \<longrightarrow> e ''photo'' = d ''photo'')
         \<and> disk (snd (post_faculty L now newId st body file))
             = (case file of
                  None \<Rightarrow> disk st
                | Some f \<Rightarrow>
                    insert (path_join (uploadDir L) (decimal now @ path_extname L (originalname f)))
                      (disk st))"
proof -
  let ?r = "post_faculty L now newId st body file"
  let ?d = "new_Faculty (newFacultyData body (map_option (multer_filename L now) file))"
  let ?ds = "Faculty_find (snd ?r) ''name designation department photo''"
  note post = post_faculty_fresh [OF assms(1), of L now body "file"]
  have found: "findId newId (faculties (snd ?r)) = Some (newId, ?d)"
    unfolding post(2) by (rule findId_append_new [OF assms(1)])
  then have g: "get_faculty L (snd ?r) ident = ((200, Document (newId, ?d)), snd ?r)"
    by (rule get_faculty_found [OF assms(2)])
  have ph: "?d ''photo''
              = Some (case file of
                       None \<Rightarrow> ''''
                     | Some f \<Rightarrow> ''/faculty_uploadss/'' @ decimal now @ path_extname L (originalname f))"
    by (cases "file") (simp_all add: new_Faculty_photo photoUrl_def multer_filename_def)
  have l: "get_faculties (snd ?r) = ((200, Documents ?ds), snd ?r)"
    by (simp add: get_faculties_def)
  from findId_Some [OF found] have "(newId, ?d) \<in> set (faculties (snd ?r))" by simp
  then have ex: "\<exists>e. (newId, e) \<in> set ?ds"
    unfolding Faculty_find_mem by blast
  have only: "\<forall>e. (newId, e) \<in> set ?ds \<longrightarrow> e ''photo'' = ?d ''photo''"
  proof (intro allI impI)
    fix e assume "(newId, e) \<in> set ?ds"
    then obtain d' where d': "(newId, d') \<in> set (faculties (snd ?r))"
      and e: "e = d' |` set (fields [] ''name designation department photo'')"
      unfolding Faculty_find_mem by blast
    from d' have "d' = ?d"
      unfolding post(2) by (rule append_new_only [OF assms(1)])
    with e show "e ''photo'' = ?d ''photo''"
      by (simp only: list_projection) simp
  qed
  have dk: "disk (snd ?r)
             = (case file of
                  None \<Rightarrow> disk st
                | Some f \<Rightarrow>
                    insert (path_join (uploadDir L) (decimal now @ path_extname L (originalname f)))
                      (disk st))"
    unfolding post(3) by (cases "file") (simp_all add: multer_filename_def)
  have lead: "0 < now \<longrightarrow> hd (decimal now) \<noteq> CHR ''0''"
    by (simp add: decimal_no_leading_zero)
  from post(1) g ph decimal_nonempty [of now] decimal_digits [of now] numberOf_decimal [of now]
    lead l ex only dk
  show ?thesis by blast
qed

text \<open>The instance: a new record with a photo named \<open>me.face.jpg\<close>.\<close>

theorem create_photo_witness:
  "\<exists>d. get_faculty demo_libs
          (snd (post_faculty demo_libs 1700000000500 new_id demo_state [''name'' \<mapsto> ''Cy'']
                  (Some \<lparr>originalname = ''me.face.jpg''\<rparr>)))
          new_id
        = ((200, Document (new_id, d)),
           snd (post_faculty demo_libs 1700000000500 new_id demo_state [''name'' \<mapsto> ''Cy'']
                  (Some \<lparr>originalname = ''me.face.jpg''\<rparr>)))
      \<and> d ''photo'' = Some ''/faculty_uploadss/1700000000500.jpg''
      \<and> ''/app/faculty_uploadss/1700000000500.jpg''
          \<in> disk (snd (post_faculty demo_libs 1700000000500 new_id demo_state [''name'' \<mapsto> ''Cy'']
                          (Some \<lparr>originalname = ''me.face.jpg''\<rparr>)))"
proof -
  let ?r = "post_faculty demo_libs 1700000000500 new_id demo_state [''name'' \<mapsto> ''Cy'']
              (Some \<lparr>originalname = ''me.face.jpg''\<rparr>)"
  from create_photo [OF demo_new_id_fresh demo_cast_new,
      of 1700000000500 "[''name'' \<mapsto> ''Cy'']" "Some \<lparr>originalname = ''me.face.jpg''\<rparr>"]
  obtain d where g: "get_faculty demo_libs (snd ?r) new_id = ((200, Document (new_id, d)), snd ?r)"
    and p: "d ''photo'' = Some (''/faculty_uploadss/'' @ ''1700000000500'' @ ''.jpg'')"
    and k: "disk (snd ?r)
              = insert (path_join (uploadDir demo_libs) (''1700000000500'' @ ''.jpg'')) (disk demo_state)"
    unfolding option.case upload.simps demo_decimal demo_ext by blast
  from p have "d ''photo'' = Some ''/faculty_uploadss/1700000000500.jpg''" by simp
  moreover from k have "''/app/faculty_uploadss/1700000000500.jpg'' \<in> disk (snd ?r)"
    by (simp add: uploadDir_def path_join_def demo_libs_def)
  ultimately show ?thesis using g by blast
qed

end
